theory Spec2Isabelle
  imports Main
begin

section \<open>Data model of \<open>pkg/asset/cluster/cluster.go\<close>\<close>

text \<open>
  The \<open>Cluster\<close> asset launches a cluster with the terraform executable. Its \<open>Generate\<close>
  talks to the file system, to the embedded data package, to terraform and to the JSON
  encoder. None of these is code of \<open>cluster.go\<close>: they are the fields of an environment
  record, one field per external function, each returning the outcome the call has in that
  environment. \<open>Generate\<close> is then a function of the environment that returns the updated
  asset, what the call returned (or that it panicked) and the calls it made, in order.
\<close>

type_synonym bytes = string

text \<open>\<open>asset.File\<close>: a name and the payload.\<close>

record File =
  Filename :: string
  Data :: bytes

text \<open>\<open>type Cluster struct { FileList []*asset.File }\<close>\<close>

record Cluster =
  FileList :: "File list"

text \<open>
  Go's \<open>error\<close> values. An error that a callee outside \<open>cluster.go\<close> returned is
  \<open>External\<close> with its message; \<open>errors.Wrap(err, msg)\<close> and \<open>fmt.Errorf(msg)\<close> are the two
  ways \<open>cluster.go\<close> builds errors of its own. \<open>Error\<close> is the message, as
  \<open>err.Error()\<close> prints it.
\<close>

datatype error = External string | Wrap error string | Errorf string

fun Error :: "error \<Rightarrow> string" where
  "Error (External s) = s"
| "Error (Wrap e msg) = msg @ '': '' @ Error e"
| "Error (Errorf s) = s"

text \<open>
  The part of the install config that \<open>Generate\<close> reads: \<open>Config.ObjectMeta.Name\<close>,
  \<open>Config.ClusterID\<close> and the three platform sections, each a pointer that is nil
  (\<open>None\<close>) when the section is not set. Of a section only the field that \<open>Generate\<close>
  reads is kept.
\<close>

record AWSPlatform =
  AWS_Region :: string

record OpenStackPlatform =
  OpenStack_Region :: string

record LibvirtPlatform =
  Libvirt_URI :: string

record Platform =
  Platform_AWS :: "AWSPlatform option"
  Platform_OpenStack :: "OpenStackPlatform option"
  Platform_Libvirt :: "LibvirtPlatform option"

record InstallConfig =
  ObjectMeta_Name :: string
  ClusterID :: string
  Config_Platform :: Platform

text \<open>
  \<open>types.ClusterMetadata\<close>, with the embedded \<open>ClusterPlatformMetadata\<close> flattened into
  it; the fields are the ones \<open>Generate\<close> assigns. \<open>Identifier\<close> is a
  \<open>map[string]string\<close>, kept as the list of its entries.
\<close>

record ClusterAWSPlatformMetadata =
  AWSMeta_Region :: string
  AWSMeta_Identifier :: "(string \<times> string) list"

record ClusterOpenStackPlatformMetadata =
  OpenStackMeta_Region :: string
  OpenStackMeta_Identifier :: "(string \<times> string) list"

record ClusterLibvirtPlatformMetadata =
  LibvirtMeta_URI :: string

record ClusterMetadata =
  ClusterName :: string
  Metadata_AWS :: "ClusterAWSPlatformMetadata option"
  Metadata_OpenStack :: "ClusterOpenStackPlatformMetadata option"
  Metadata_Libvirt :: "ClusterLibvirtPlatformMetadata option"

text \<open>
  The dependencies that \<open>parents.Get\<close> copies in. Of the terraform variables asset only
  what its \<open>Files()\<close> returns is read; the admin kubeconfig is fetched and never used.
\<close>

record Parents =
  Parents_installConfig :: InstallConfig
  Parents_terraformVariables_Files :: "File list"

text \<open>
  The calls that leave \<open>cluster.go\<close>. An \<open>option\<close> result is the returned error
  (\<open>None\<close> is nil); a sum is either the error (\<open>Inl\<close>) or the value. \<open>terraform.Apply\<close>
  returns the state file's path together with its error, and \<open>Generate\<close> uses the path in
  both cases. \<open>Platform_Name\<close> is the method \<open>Platform.Name()\<close> of the types package.
\<close>

record env =
  os_TempDir :: string
  ioutil_TempDir :: "string \<Rightarrow> string \<Rightarrow> string + string"
  ioutil_WriteFile :: "string \<Rightarrow> bytes \<Rightarrow> string option"
  ioutil_ReadFile :: "string \<Rightarrow> string + bytes"
  filepath_Join :: "string \<Rightarrow> string \<Rightarrow> string"
  data_Unpack :: "string \<Rightarrow> string \<Rightarrow> string option"
  terraform_Init :: "string \<Rightarrow> string option"
  terraform_Apply :: "string \<Rightarrow> string \<times> string option"
  json_Marshal :: "ClusterMetadata \<Rightarrow> string + bytes"
  Platform_Name :: "Platform \<Rightarrow> string"

text \<open>
  What a run of \<open>Generate\<close> did, in program order. \<open>EvClassify\<close> is the \<open>switch\<close> over the
  platform sections (with whether a case matched); every other event is a call.
\<close>

datatype event =
    EvTempDir string string
  | EvWriteFile string bytes
  | EvUnpack string string
  | EvClassify bool
  | EvLogInfo string
  | EvInit string
  | EvApply string
  | EvReadFile string
  | EvLogReadFailed string
  | EvMarshal ClusterMetadata
  | EvLogError error
  | EvRemoveAll string

text \<open>How the call ended: it returned its \<open>err\<close> result, or it panicked.\<close>

datatype outcome = Returned "error option" | Panicked

record run =
  cluster :: Cluster
  outcome :: outcome
  trace :: "event list"

section \<open>The code\<close>

definition MetadataFilename :: string where
  "MetadataFilename = ''metadata.json''"

definition stateFileName :: string where
  "stateFileName = ''terraform.tfstate''"

text \<open>
  The \<open>switch\<close> of \<open>Generate\<close>: the first platform section that is set fills the matching
  section of the metadata; \<open>None\<close> is the \<open>default\<close> branch.
\<close>

definition switch_platform :: "InstallConfig \<Rightarrow> ClusterMetadata \<Rightarrow> ClusterMetadata option" where
  "switch_platform installConfig metadata =
     (case Platform_AWS (Config_Platform installConfig) of
        Some aws \<Rightarrow>
          Some (metadata\<lparr>Metadata_AWS := Some
            \<lparr>AWSMeta_Region = AWS_Region aws,
             AWSMeta_Identifier = [(''tectonicClusterID'', ClusterID installConfig)]\<rparr>\<rparr>)
      | None \<Rightarrow>
     (case Platform_OpenStack (Config_Platform installConfig) of
        Some openstack \<Rightarrow>
          Some (metadata\<lparr>Metadata_OpenStack := Some
            \<lparr>OpenStackMeta_Region = OpenStack_Region openstack,
             OpenStackMeta_Identifier = [(''tectonicClusterID'', ClusterID installConfig)]\<rparr>\<rparr>)
      | None \<Rightarrow>
     (case Platform_Libvirt (Config_Platform installConfig) of
        Some libvirt \<Rightarrow>
          Some (metadata\<lparr>Metadata_Libvirt := Some \<lparr>LibvirtMeta_URI = Libvirt_URI libvirt\<rparr>\<rparr>)
      | None \<Rightarrow> None)))"

text \<open>
  The state of the function body when it reaches a \<open>return\<close>, before the deferred calls
  run: the metadata record (the deferred closure holds a pointer to it), the asset, the
  value of the named result \<open>err\<close>, and the events so far.
\<close>

record body =
  body_metadata :: ClusterMetadata
  body_cluster :: Cluster
  body_err :: "error option"
  body_trace :: "event list"

text \<open>
  From the \<open>switch\<close> to the final \<open>return err\<close>. After \<open>terraform.Apply\<close> the state
  file is read whatever \<open>Apply\<close> returned; a read error becomes \<open>err\<close> only when \<open>err\<close> is
  still nil, and is logged otherwise.
\<close>

definition provision :: "env \<Rightarrow> InstallConfig \<Rightarrow> string \<Rightarrow> Cluster \<Rightarrow> ClusterMetadata \<Rightarrow> body" where
  "provision e installConfig tmpDir c metadata =
     (case switch_platform installConfig metadata of
        None \<Rightarrow>
          \<lparr>body_metadata = metadata, body_cluster = c,
           body_err = Some (Errorf ''no known platform''),
           body_trace = [EvClassify False]\<rparr>
      | Some md \<Rightarrow>
          (let cfg = filepath_Join e tmpDir ''config.tf'';
               t1 = [EvClassify True, EvUnpack cfg ''config.tf'']
           in case data_Unpack e cfg ''config.tf'' of
                Some err1 \<Rightarrow>
                  \<lparr>body_metadata = md, body_cluster = c,
                   body_err = Some (External err1), body_trace = t1\<rparr>
              | None \<Rightarrow>
                  (let t2 = t1 @ [EvLogInfo ''Using Terraform to create cluster...'', EvInit tmpDir]
                   in case terraform_Init e tmpDir of
                        Some err1 \<Rightarrow>
                          \<lparr>body_metadata = md, body_cluster = c,
                           body_err = Some (Wrap (External err1) ''failed to initialize terraform''),
                           body_trace = t2\<rparr>
                      | None \<Rightarrow>
                          (let stateFile = fst (terraform_Apply e tmpDir);
                               err = map_option (\<lambda>a. Wrap (External a) ''failed to run terraform'')
                                       (snd (terraform_Apply e tmpDir));
                               t3 = t2 @ [EvApply tmpDir, EvReadFile stateFile]
                           in case ioutil_ReadFile e stateFile of
                                Inr data \<Rightarrow>
                                  \<lparr>body_metadata = md,
                                   body_cluster = c\<lparr>FileList := FileList c @
                                     [\<lparr>Filename = stateFileName, Data = data\<rparr>]\<rparr>,
                                   body_err = err, body_trace = t3\<rparr>
                              | Inl err2 \<Rightarrow>
                                  (if err = None
                                   then \<lparr>body_metadata = md, body_cluster = c,
                                         body_err = Some (External err2), body_trace = t3\<rparr>
                                   else \<lparr>body_metadata = md, body_cluster = c,
                                         body_err = err,
                                         body_trace = t3 @ [EvLogReadFailed err2]\<rparr>)))))"

text \<open>
  The deferred closure: it marshals the metadata as it is when the function returns and
  appends \<open>metadata.json\<close>; a marshal error is wrapped and becomes the result only when
  \<open>err\<close> is nil, and is logged otherwise.
\<close>

definition deferred_metadata :: "env \<Rightarrow> body \<Rightarrow> run" where
  "deferred_metadata e b =
     (case json_Marshal e (body_metadata b) of
        Inr data \<Rightarrow>
          \<lparr>cluster = (body_cluster b)\<lparr>FileList := FileList (body_cluster b) @
             [\<lparr>Filename = MetadataFilename, Data = data\<rparr>]\<rparr>,
           outcome = Returned (body_err b),
           trace = body_trace b @ [EvMarshal (body_metadata b)]\<rparr>
      | Inl m \<Rightarrow>
          (let err2 = Wrap (External m) ''failed to Marshal ClusterMetadata''
           in if body_err b = None
              then \<lparr>cluster = body_cluster b, outcome = Returned (Some err2),
                    trace = body_trace b @ [EvMarshal (body_metadata b)]\<rparr>
              else \<lparr>cluster = body_cluster b, outcome = Returned (body_err b),
                    trace = body_trace b @ [EvMarshal (body_metadata b), EvLogError err2]\<rparr>))"

text \<open>
  From \<open>terraformVariables.Files()[0]\<close> on, inside the temporary directory. Indexing an
  empty slice panics. The closure above is deferred only after the variables file is
  written and the platform's data is unpacked.
\<close>

definition in_tmpDir :: "env \<Rightarrow> InstallConfig \<Rightarrow> File list \<Rightarrow> string \<Rightarrow> Cluster \<Rightarrow> run" where
  "in_tmpDir e installConfig files tmpDir c =
     (case files of
        [] \<Rightarrow> \<lparr>cluster = c, outcome = Panicked, trace = []\<rparr>
      | terraformVariablesFile # _ \<Rightarrow>
          (let path = filepath_Join e tmpDir (Filename terraformVariablesFile);
               t1 = [EvWriteFile path (Data terraformVariablesFile)]
           in case ioutil_WriteFile e path (Data terraformVariablesFile) of
                Some err1 \<Rightarrow>
                  \<lparr>cluster = c,
                   outcome = Returned (Some (Wrap (External err1) ''failed to write terraform.tfvars file'')),
                   trace = t1\<rparr>
              | None \<Rightarrow>
                  (let platform = Platform_Name e (Config_Platform installConfig);
                       t2 = t1 @ [EvUnpack tmpDir platform]
                   in case data_Unpack e tmpDir platform of
                        Some err1 \<Rightarrow>
                          \<lparr>cluster = c, outcome = Returned (Some (External err1)), trace = t2\<rparr>
                      | None \<Rightarrow>
                          (let metadata = \<lparr>ClusterName = ObjectMeta_Name installConfig,
                                 Metadata_AWS = None, Metadata_OpenStack = None,
                                 Metadata_Libvirt = None\<rparr>;
                               r = deferred_metadata e (provision e installConfig tmpDir c metadata)
                           in r\<lparr>trace := t2 @ trace r\<rparr>))))"

text \<open>\<open>defer os.RemoveAll(tmpDir)\<close>: runs last on every way out, a panic included.\<close>

definition deferred_RemoveAll :: "string \<Rightarrow> run \<Rightarrow> run" where
  "deferred_RemoveAll tmpDir r = r\<lparr>trace := trace r @ [EvRemoveAll tmpDir]\<rparr>"

definition Generate :: "env \<Rightarrow> Parents \<Rightarrow> Cluster \<Rightarrow> run" where
  "Generate e parents c =
     (let t0 = [EvTempDir (os_TempDir e) ''openshift-install-'']
      in case ioutil_TempDir e (os_TempDir e) ''openshift-install-'' of
           Inl err1 \<Rightarrow>
             \<lparr>cluster = c,
              outcome = Returned (Some (Wrap (External err1)
                ''failed to create temp dir for terraform execution'')),
              trace = t0\<rparr>
         | Inr tmpDir \<Rightarrow>
             (let r = deferred_RemoveAll tmpDir
                        (in_tmpDir e (Parents_installConfig parents)
                           (Parents_terraformVariables_Files parents) tmpDir c)
              in r\<lparr>trace := t0 @ trace r\<rparr>))"

text \<open>\<open>func (c *Cluster) Files() []*asset.File\<close>\<close>

definition Files :: "Cluster \<Rightarrow> File list" where
  "Files c = FileList c"

text \<open>
  \<open>asset.FileFetcher\<close>: \<open>FetchByName\<close> returns the file of that name, or nil. The
  fetcher is the storage it reads. \<open>Load\<close> formats its error with \<open>%q\<close>, which
  puts the name between double quotes (the name has no character that \<open>%q\<close> escapes).
\<close>

type_synonym FileFetcher = "string \<Rightarrow> File option"

definition FetchByName :: "FileFetcher \<Rightarrow> string \<Rightarrow> File option" where
  "FetchByName f name = f name"

definition fmt_q :: "string \<Rightarrow> string" where
  "fmt_q s = [CHR 0x22] @ s @ [CHR 0x22]"

definition Load :: "Cluster \<Rightarrow> FileFetcher \<Rightarrow> Cluster \<times> bool \<times> error option" where
  "Load c f =
     (if FetchByName f stateFileName \<noteq> None
      then (c, True, Some (Errorf (fmt_q stateFileName @ '' already exisits'')))
      else (c, False, None))"

section \<open>Vocabulary of the properties\<close>

text \<open>Kinds of events, and runs seen through them.\<close>

fun is_marshal :: "event \<Rightarrow> bool" where
  "is_marshal (EvMarshal _) = True"
| "is_marshal _ = False"

fun is_tool :: "event \<Rightarrow> bool" where
  "is_tool (EvInit _) = True"
| "is_tool (EvApply _) = True"
| "is_tool _ = False"

fun is_unpack :: "event \<Rightarrow> bool" where
  "is_unpack (EvUnpack _ _) = True"
| "is_unpack _ = False"

fun is_classify :: "event \<Rightarrow> bool" where
  "is_classify (EvClassify _) = True"
| "is_classify _ = False"

fun is_remove :: "event \<Rightarrow> bool" where
  "is_remove (EvRemoveAll _) = True"
| "is_remove _ = False"

text \<open>
  \<open>all_preceded P Q tr\<close>: no \<open>Q\<close> event occurs in \<open>tr\<close> unless a \<open>P\<close> event occurred
  earlier.
\<close>

fun all_preceded :: "(event \<Rightarrow> bool) \<Rightarrow> (event \<Rightarrow> bool) \<Rightarrow> event list \<Rightarrow> bool" where
  "all_preceded P Q [] = True"
| "all_preceded P Q (x # xs) = (if P x then True else \<not> Q x \<and> all_preceded P Q xs)"

text \<open>
  The run gets as far as deferring the metadata closure: the temporary directory is
  created, the variables asset has a file, the file is written and the platform's data
  is unpacked.
\<close>

definition staging_ok :: "env \<Rightarrow> Parents \<Rightarrow> bool" where
  "staging_ok e parents =
     (case ioutil_TempDir e (os_TempDir e) ''openshift-install-'' of
        Inl _ \<Rightarrow> False
      | Inr tmpDir \<Rightarrow>
          (case Parents_terraformVariables_Files parents of
             [] \<Rightarrow> False
           | f # _ \<Rightarrow>
               ioutil_WriteFile e (filepath_Join e tmpDir (Filename f)) (Data f) = None \<and>
               data_Unpack e tmpDir
                 (Platform_Name e (Config_Platform (Parents_installConfig parents))) = None))"

text \<open>The metadata record before the \<open>switch\<close>: the cluster's name and no platform.\<close>

definition bare_metadata :: "InstallConfig \<Rightarrow> ClusterMetadata" where
  "bare_metadata installConfig =
     \<lparr>ClusterName = ObjectMeta_Name installConfig, Metadata_AWS = None,
      Metadata_OpenStack = None, Metadata_Libvirt = None\<rparr>"

text \<open>
  The record an AWS install config named \<open>demo\<close> in region \<open>us-test-1\<close> is expected to
  leave in \<open>metadata.json\<close>, for a given cluster ID.
\<close>

definition aws_metadata :: "string \<Rightarrow> ClusterMetadata" where
  "aws_metadata cid =
     \<lparr>ClusterName = ''demo'',
      Metadata_AWS = Some \<lparr>AWSMeta_Region = ''us-test-1'',
        AWSMeta_Identifier = [(''tectonicClusterID'', cid)]\<rparr>,
      Metadata_OpenStack = None, Metadata_Libvirt = None\<rparr>"

section \<open>Test doubles\<close>

text \<open>
  Concrete environments and inputs on which the theorems below are instantiated. In
  \<open>demo_env\<close> every call succeeds; the others differ from it in one or two calls.
\<close>

definition demo_Name :: "Platform \<Rightarrow> string" where
  "demo_Name p =
     (if Platform_AWS p \<noteq> None then ''aws''
      else if Platform_Libvirt p \<noteq> None then ''libvirt''
      else if Platform_OpenStack p \<noteq> None then ''openstack''
      else [])"

definition demo_pairs :: "(string \<times> string) list \<Rightarrow> string" where
  "demo_pairs kvs = concat (map (\<lambda>(k, v). '';'' @ k @ ''='' @ v) kvs)"

definition demo_Marshal :: "ClusterMetadata \<Rightarrow> string + bytes" where
  "demo_Marshal m =
     Inr (''name='' @ ClusterName m @
       (case Metadata_AWS m of None \<Rightarrow> []
        | Some a \<Rightarrow> '';aws='' @ AWSMeta_Region a @ demo_pairs (AWSMeta_Identifier a)) @
       (case Metadata_OpenStack m of None \<Rightarrow> []
        | Some a \<Rightarrow> '';openstack='' @ OpenStackMeta_Region a @
            demo_pairs (OpenStackMeta_Identifier a)) @
       (case Metadata_Libvirt m of None \<Rightarrow> [] | Some a \<Rightarrow> '';libvirt='' @ LibvirtMeta_URI a))"

text \<open>
  The decoder of the test encoder: the document is cut at \<open>;\<close> into fields, each field
  at its first \<open>=\<close> into a key and a value; the first field is the name, the second (if
  any) names the platform, and the fields after it are the identifier's entries.
\<close>

fun demo_split :: "string \<Rightarrow> string list" where
  "demo_split [] = [[]]"
| "demo_split (x # xs) =
     (if x = CHR '';'' then [] # demo_split xs
      else (case demo_split xs of [] \<Rightarrow> [[x]] | w # ws \<Rightarrow> (x # w) # ws))"

definition demo_field :: "string \<Rightarrow> string \<times> string" where
  "demo_field s =
     (takeWhile (\<lambda>x. x \<noteq> CHR ''='') s, drop 1 (dropWhile (\<lambda>x. x \<noteq> CHR ''='') s))"

definition demo_Unmarshal :: "bytes \<Rightarrow> ClusterMetadata option" where
  "demo_Unmarshal x =
     (case map demo_field (demo_split x) of
        [] \<Rightarrow> None
      | (k, n) # kvs \<Rightarrow>
          if k \<noteq> ''name'' then None
          else (case kvs of
             [] \<Rightarrow> Some \<lparr>ClusterName = n, Metadata_AWS = None,
                     Metadata_OpenStack = None, Metadata_Libvirt = None\<rparr>
           | (platform, v) # ids \<Rightarrow>
               if platform = ''aws''
               then Some \<lparr>ClusterName = n,
                      Metadata_AWS = Some \<lparr>AWSMeta_Region = v, AWSMeta_Identifier = ids\<rparr>,
                      Metadata_OpenStack = None, Metadata_Libvirt = None\<rparr>
               else if platform = ''openstack''
               then Some \<lparr>ClusterName = n, Metadata_AWS = None,
                      Metadata_OpenStack =
                        Some \<lparr>OpenStackMeta_Region = v, OpenStackMeta_Identifier = ids\<rparr>,
                      Metadata_Libvirt = None\<rparr>
               else if platform = ''libvirt'' \<and> ids = []
               then Some \<lparr>ClusterName = n, Metadata_AWS = None, Metadata_OpenStack = None,
                      Metadata_Libvirt = Some \<lparr>LibvirtMeta_URI = v\<rparr>\<rparr>
               else None))"

definition demo_env :: env where
  "demo_env =
     \<lparr>os_TempDir = ''/tmp'',
      ioutil_TempDir = (\<lambda>dir prefix. Inr (dir @ ''/'' @ prefix @ ''1'')),
      ioutil_WriteFile = (\<lambda>path data. None),
      ioutil_ReadFile = (\<lambda>path. Inr ''state''),
      filepath_Join = (\<lambda>a b. a @ ''/'' @ b),
      data_Unpack = (\<lambda>base uri. None),
      terraform_Init = (\<lambda>dir. None),
      terraform_Apply = (\<lambda>dir. (dir @ ''/terraform.tfstate'', None)),
      json_Marshal = demo_Marshal,
      Platform_Name = demo_Name\<rparr>"


definition env_apply_fails :: env where
  "env_apply_fails =
     demo_env\<lparr>terraform_Apply := (\<lambda>dir. (dir @ ''/terraform.tfstate'', Some ''exit status 1'')),
              ioutil_ReadFile := (\<lambda>path. Inl ''no such file'')\<rparr>"

definition env_read_fails :: env where
  "env_read_fails = demo_env\<lparr>ioutil_ReadFile := (\<lambda>path. Inl ''no such file'')\<rparr>"

definition env_marshal_fails :: env where
  "env_marshal_fails = demo_env\<lparr>json_Marshal := (\<lambda>m. Inl ''unsupported type'')\<rparr>"

definition demo_config :: InstallConfig where
  "demo_config =
     \<lparr>ObjectMeta_Name = ''demo'', ClusterID = ''c1d'',
      Config_Platform =
        \<lparr>Platform_AWS = Some \<lparr>AWS_Region = ''us-test-1''\<rparr>,
         Platform_OpenStack = None, Platform_Libvirt = None\<rparr>\<rparr>"

definition demo_metadata :: ClusterMetadata where
  "demo_metadata =
     \<lparr>ClusterName = ''demo'',
      Metadata_AWS = Some \<lparr>AWSMeta_Region = ''us-test-1'',
        AWSMeta_Identifier = [(''tectonicClusterID'', ''c1d'')]\<rparr>,
      Metadata_OpenStack = None, Metadata_Libvirt = None\<rparr>"

definition demo_parents :: Parents where
  "demo_parents =
     \<lparr>Parents_installConfig = demo_config,
      Parents_terraformVariables_Files = [\<lparr>Filename = ''terraform.tfvars'', Data = ''{}''\<rparr>]\<rparr>"

definition parents_no_platform :: Parents where
  "parents_no_platform =
     demo_parents\<lparr>Parents_installConfig := demo_config\<lparr>Config_Platform :=
       \<lparr>Platform_AWS = None, Platform_OpenStack = None, Platform_Libvirt = None\<rparr>\<rparr>\<rparr>"

definition parents_no_files :: Parents where
  "parents_no_files = demo_parents\<lparr>Parents_terraformVariables_Files := []\<rparr>"

definition no_files :: Cluster where
  "no_files = \<lparr>FileList = []\<rparr>"

definition demo_store :: FileFetcher where
  "demo_store = [''terraform.tfstate'' \<mapsto> \<lparr>Filename = ''terraform.tfstate'', Data = ''state''\<rparr>]"

definition env_all_fail :: env where
  "env_all_fail = env_apply_fails\<lparr>json_Marshal := (\<lambda>m. Inl ''unsupported type'')\<rparr>"

section \<open>The shape of a run\<close>

lemma Generate_TempDir_error:
  assumes "ioutil_TempDir e (os_TempDir e) ''openshift-install-'' = Inl x"
  shows "Generate e parents c =
    \<lparr>cluster = c,
     outcome = Returned (Some (Wrap (External x)
       ''failed to create temp dir for terraform execution'')),
     trace = [EvTempDir (os_TempDir e) ''openshift-install-'']\<rparr>"
  using assms by (simp add: Generate_def)

lemma Generate_TempDir_ok:
  fixes e parents c tmpDir
  defines "r \<equiv> in_tmpDir e (Parents_installConfig parents)
                 (Parents_terraformVariables_Files parents) tmpDir c"
  assumes "ioutil_TempDir e (os_TempDir e) ''openshift-install-'' = Inr tmpDir"
  shows "trace (Generate e parents c) =
           EvTempDir (os_TempDir e) ''openshift-install-'' # trace r @ [EvRemoveAll tmpDir]"
    and "outcome (Generate e parents c) = outcome r"
    and "cluster (Generate e parents c) = cluster r"
  using assms by (simp_all add: Generate_def deferred_RemoveAll_def)

lemma provision_no_remove: "\<not> list_ex is_remove (body_trace (provision e ic tmpDir c md))"
  by (simp add: provision_def Let_def split: option.split sum.split)

lemma deferred_metadata_no_remove:
  "list_ex is_remove (trace (deferred_metadata e b)) = list_ex is_remove (body_trace b)"
  by (simp add: deferred_metadata_def Let_def split: sum.split)

lemma in_tmpDir_no_remove: "\<not> list_ex is_remove (trace (in_tmpDir e ic files tmpDir c))"
  by (simp add: in_tmpDir_def Let_def deferred_metadata_no_remove provision_no_remove
      split: list.split option.split)

lemma in_tmpDir_staged:
  fixes e ic tmpDir c
  defines "r \<equiv> deferred_metadata e (provision e ic tmpDir c (bare_metadata ic))"
  assumes "files = f # fs"
    and "ioutil_WriteFile e (filepath_Join e tmpDir (Filename f)) (Data f) = None"
    and "data_Unpack e tmpDir (Platform_Name e (Config_Platform ic)) = None"
  shows "in_tmpDir e ic files tmpDir c =
           r\<lparr>trace := [EvWriteFile (filepath_Join e tmpDir (Filename f)) (Data f),
                        EvUnpack tmpDir (Platform_Name e (Config_Platform ic))] @ trace r\<rparr>"
  using assms by (simp add: in_tmpDir_def bare_metadata_def Let_def)

lemma deferred_metadata_outcome:
  "outcome (deferred_metadata e b) =
     (case json_Marshal e (body_metadata b) of
        Inr data \<Rightarrow> Returned (body_err b)
      | Inl m \<Rightarrow>
          (if body_err b = None
           then Returned (Some (Wrap (External m) ''failed to Marshal ClusterMetadata''))
           else Returned (body_err b)))"
  by (auto simp: deferred_metadata_def Let_def split: sum.split)


lemma provision_Errorf:
  assumes "body_err (provision e ic tmpDir c md) = Some (Errorf msg)"
  shows "provision e ic tmpDir c md =
           \<lparr>body_metadata = md, body_cluster = c,
            body_err = Some (Errorf ''no known platform''),
            body_trace = [EvClassify False]\<rparr>"
  using assms
  by (simp add: provision_def Let_def split: option.splits sum.splits if_splits)

lemma staging_okE:
  assumes "staging_ok e parents"
  obtains tmpDir f fs where
    "ioutil_TempDir e (os_TempDir e) ''openshift-install-'' = Inr tmpDir"
    "Parents_terraformVariables_Files parents = f # fs"
    "ioutil_WriteFile e (filepath_Join e tmpDir (Filename f)) (Data f) = None"
    "data_Unpack e tmpDir (Platform_Name e (Config_Platform (Parents_installConfig parents))) = None"
  using assms by (auto simp: staging_ok_def split: sum.splits list.splits)

lemma Generate_staged:
  fixes e parents c tmpDir
  defines "ic \<equiv> Parents_installConfig parents"
  defines "r \<equiv> deferred_metadata e (provision e ic tmpDir c (bare_metadata ic))"
  assumes "ioutil_TempDir e (os_TempDir e) ''openshift-install-'' = Inr tmpDir"
    and "Parents_terraformVariables_Files parents = f # fs"
    and "ioutil_WriteFile e (filepath_Join e tmpDir (Filename f)) (Data f) = None"
    and "data_Unpack e tmpDir (Platform_Name e (Config_Platform ic)) = None"
  shows "trace (Generate e parents c) =
           [EvTempDir (os_TempDir e) ''openshift-install-'',
            EvWriteFile (filepath_Join e tmpDir (Filename f)) (Data f),
            EvUnpack tmpDir (Platform_Name e (Config_Platform ic))] @ trace r @
           [EvRemoveAll tmpDir]"
    and "outcome (Generate e parents c) = outcome r"
    and "cluster (Generate e parents c) = cluster r"
  using assms by (simp_all add: Generate_TempDir_ok in_tmpDir_staged)

lemma Generate_not_staged:
  assumes "\<not> staging_ok e parents"
  shows "cluster (Generate e parents c) = c"
    and "\<not> list_ex is_marshal (trace (Generate e parents c))"
    and "\<not> list_ex is_classify (trace (Generate e parents c))"
    and "\<not> list_ex is_tool (trace (Generate e parents c))"
    and "outcome (Generate e parents c) \<noteq> Returned None"
  using assms
  by (auto simp: staging_ok_def Generate_def in_tmpDir_def deferred_RemoveAll_def Let_def
      split: sum.splits list.splits option.splits)

lemma deferred_metadata_marshals:
  "EvMarshal (body_metadata b) \<in> set (trace (deferred_metadata e b))"
  by (simp add: deferred_metadata_def Let_def split: sum.split)

lemma deferred_metadata_appends:
  assumes "json_Marshal e (body_metadata b) = Inr d"
  shows "FileList (cluster (deferred_metadata e b)) =
           FileList (body_cluster b) @ [\<lparr>Filename = ''metadata.json'', Data = d\<rparr>]"
  using assms by (simp add: deferred_metadata_def MetadataFilename_def)

lemma deferred_metadata_keeps_error:
  assumes "body_err b = Some x"
  shows "outcome (deferred_metadata e b) = Returned (Some x)"
  using assms by (simp add: deferred_metadata_outcome split: sum.split)

lemma deferred_metadata_keeps_files:
  "set (FileList (body_cluster b)) \<subseteq> set (FileList (cluster (deferred_metadata e b)))"
  by (auto simp: deferred_metadata_def Let_def split: sum.split)

lemma deferred_metadata_keeps_trace:
  "set (body_trace b) \<subseteq> set (trace (deferred_metadata e b))"
  by (auto simp: deferred_metadata_def Let_def split: sum.split)

lemma deferred_metadata_prefix:
  "\<exists>tl. trace (deferred_metadata e b) = body_trace b @ tl \<and> \<not> list_ex is_tool tl \<and>
        \<not> list_ex is_unpack tl \<and> \<not> list_ex is_classify tl"
  by (simp add: deferred_metadata_def Let_def split: sum.split)

text \<open>What \<open>provision\<close> leaves behind once \<open>terraform.Apply\<close> has run.\<close>

lemma provision_applied:
  assumes "EvApply d \<in> set (body_trace (provision e ic tmpDir c md))"
  defines "stateFile \<equiv> fst (terraform_Apply e d)"
  defines "b \<equiv> provision e ic tmpDir c md"
  shows "\<exists>pre post. body_trace b = pre @ [EvApply d, EvReadFile stateFile] @ post"
    and "ioutil_ReadFile e stateFile = Inr data \<Longrightarrow>
           \<lparr>Filename = ''terraform.tfstate'', Data = data\<rparr> \<in> set (FileList (body_cluster b))"
    and "snd (terraform_Apply e d) = Some a \<Longrightarrow>
           body_err b = Some (Wrap (External a) ''failed to run terraform'')"
    and "snd (terraform_Apply e d) = Some a \<Longrightarrow> ioutil_ReadFile e stateFile = Inl x \<Longrightarrow>
           EvLogReadFailed x \<in> set (body_trace b)"
    and "snd (terraform_Apply e d) = None \<Longrightarrow> ioutil_ReadFile e stateFile = Inl x \<Longrightarrow>
           body_err b = Some (External x)"
proof -
  from assms(1) have d: "d = tmpDir"
    by (auto simp: provision_def Let_def split: option.splits sum.splits if_splits)
  from assms(1) obtain md' where run:
    "switch_platform ic md = Some md'"
    "data_Unpack e (filepath_Join e tmpDir ''config.tf'') ''config.tf'' = None"
    "terraform_Init e tmpDir = None"
    by (auto simp: provision_def Let_def split: option.splits)
  let ?t2 = "[EvClassify True, EvUnpack (filepath_Join e tmpDir ''config.tf'') ''config.tf'',
              EvLogInfo ''Using Terraform to create cluster...'', EvInit tmpDir]"
  have "body_trace b = ?t2 @ [EvApply d, EvReadFile stateFile] @ [] \<or>
        (\<exists>x. body_trace b = ?t2 @ [EvApply d, EvReadFile stateFile] @ [EvLogReadFailed x])"
    unfolding b_def stateFile_def d using run
    by (simp add: provision_def Let_def split: sum.split)
  then show "\<exists>pre post. body_trace b = pre @ [EvApply d, EvReadFile stateFile] @ post"
    by blast
  show "ioutil_ReadFile e stateFile = Inr data \<Longrightarrow>
          \<lparr>Filename = ''terraform.tfstate'', Data = data\<rparr> \<in> set (FileList (body_cluster b))"
    unfolding b_def stateFile_def d using run
    by (simp add: provision_def Let_def stateFileName_def)
  show "snd (terraform_Apply e d) = Some a \<Longrightarrow>
          body_err b = Some (Wrap (External a) ''failed to run terraform'')"
    unfolding b_def stateFile_def d using run
    by (simp add: provision_def Let_def split: sum.split)
  show "snd (terraform_Apply e d) = Some a \<Longrightarrow> ioutil_ReadFile e stateFile = Inl x \<Longrightarrow>
          EvLogReadFailed x \<in> set (body_trace b)"
    unfolding b_def stateFile_def d using run
    by (simp add: provision_def Let_def)
  show "snd (terraform_Apply e d) = None \<Longrightarrow> ioutil_ReadFile e stateFile = Inl x \<Longrightarrow>
          body_err b = Some (External x)"
    unfolding b_def stateFile_def d using run
    by (simp add: provision_def Let_def)
qed

lemma Generate_applied:
  assumes "EvApply d \<in> set (trace (Generate e parents c))"
  obtains tmpDir f fs where
    "ioutil_TempDir e (os_TempDir e) ''openshift-install-'' = Inr tmpDir"
    "Parents_terraformVariables_Files parents = f # fs"
    "ioutil_WriteFile e (filepath_Join e tmpDir (Filename f)) (Data f) = None"
    "data_Unpack e tmpDir (Platform_Name e (Config_Platform (Parents_installConfig parents))) = None"
    "EvApply d \<in> set (body_trace (provision e (Parents_installConfig parents) tmpDir c
        (bare_metadata (Parents_installConfig parents))))"
proof -
  have "list_ex is_tool (trace (Generate e parents c))"
    unfolding list_ex_iff using assms by (rule rev_bexI) simp
  then have "staging_ok e parents"
    using Generate_not_staged(4) by blast
  then obtain tmpDir f fs where st:
    "ioutil_TempDir e (os_TempDir e) ''openshift-install-'' = Inr tmpDir"
    "Parents_terraformVariables_Files parents = f # fs"
    "ioutil_WriteFile e (filepath_Join e tmpDir (Filename f)) (Data f) = None"
    "data_Unpack e tmpDir (Platform_Name e (Config_Platform (Parents_installConfig parents))) = None"
    by (rule staging_okE)
  let ?b = "provision e (Parents_installConfig parents) tmpDir c
              (bare_metadata (Parents_installConfig parents))"
  from assms have "EvApply d \<in> set (trace (deferred_metadata e ?b))"
    by (simp add: Generate_staged(1) [OF st])
  then have "EvApply d \<in> set (body_trace ?b)"
    by (auto simp: deferred_metadata_def Let_def split: sum.splits if_splits)
  with st show thesis
    by (rule that)
qed

text \<open>Nothing before the deferred closure depends on the JSON encoder.\<close>

lemma provision_json_Marshal [simp]:
  "provision (e\<lparr>json_Marshal := g\<rparr>) ic tmpDir c md = provision e ic tmpDir c md"
  by (simp add: provision_def Let_def split: option.split sum.split)

lemma staging_ok_json_Marshal [simp]:
  "staging_ok (e\<lparr>json_Marshal := g\<rparr>) parents = staging_ok e parents"
  by (simp add: staging_ok_def split: sum.split list.split)

lemma provision_no_marshal: "\<not> list_ex is_marshal (body_trace (provision e ic tmpDir c md))"
  by (simp add: provision_def Let_def split: option.split sum.split)

lemma deferred_metadata_marshalled:
  assumes "EvMarshal md \<in> set (trace (deferred_metadata e b))"
    and "\<not> list_ex is_marshal (body_trace b)"
  shows "md = body_metadata b"
  using assms
  by (auto simp: deferred_metadata_def Let_def list_ex_iff split: sum.splits if_splits)

lemma deferred_metadata_logs:
  assumes "json_Marshal e (body_metadata b) = Inl m"
    and "\<forall>x \<in> set (body_trace b). \<forall>err. x \<noteq> EvLogError err"
  shows "(EvLogError (Wrap (External m) ''failed to Marshal ClusterMetadata'') \<in>
           set (trace (deferred_metadata e b))) = (body_err b \<noteq> None)"
  using assms by (auto simp: deferred_metadata_def Let_def)

lemma provision_no_LogError:
  "\<forall>x \<in> set (body_trace (provision e ic tmpDir c md)). \<forall>err. x \<noteq> EvLogError err"
  by (simp add: provision_def Let_def split: option.split sum.split)

text \<open>The AWS case of the \<open>switch\<close> fills the metadata before anything can fail.\<close>

lemma provision_metadata_AWS:
  assumes "Platform_AWS (Config_Platform ic) = Some aws"
  shows "body_metadata (provision e ic tmpDir c md) =
           md\<lparr>Metadata_AWS := Some \<lparr>AWSMeta_Region = AWS_Region aws,
             AWSMeta_Identifier = [(''tectonicClusterID'', ClusterID ic)]\<rparr>\<rparr>"
  using assms
  by (simp add: provision_def switch_platform_def Let_def split: option.split sum.split)

lemma deferred_metadata_last:
  assumes "json_Marshal e (body_metadata b) = Inr d"
  shows "last (FileList (cluster (deferred_metadata e b))) =
           \<lparr>Filename = ''metadata.json'', Data = d\<rparr>"
  using assms by (simp add: deferred_metadata_appends)

lemma all_preceded_absent:
  assumes "\<not> list_ex Q tr"
  shows "all_preceded P Q tr"
  using assms by (induction tr) simp_all

lemma provision_trace:
  "\<exists>k rest. body_trace (provision e ic tmpDir c md) = EvClassify k # rest \<and>
     (\<forall>x \<in> set rest. is_unpack x \<longrightarrow>
        x = EvUnpack (filepath_Join e tmpDir ''config.tf'') ''config.tf'')"
  by (auto simp: provision_def Let_def split: option.split sum.split)

section \<open>What \<open>Load\<close> and \<open>Generate\<close> guarantee\<close>

text \<open>
  C1. \<open>Load\<close> returns found = true with the error whose message is
  \<open>"terraform.tfstate" already exisits\<close> (the code's spelling) exactly when the fetcher has
  a file named \<open>terraform.tfstate\<close>, and found = false with no error otherwise; the
  asset comes back as it went in.
\<close>

theorem Load_refuses_existing_state:
  "fst (Load c f) = c \<and>
   fst (snd (Load c f)) = (f ''terraform.tfstate'' \<noteq> None) \<and>
   map_option Error (snd (snd (Load c f))) =
     (if f ''terraform.tfstate'' = None then None
      else Some (CHR 0x22 # ''terraform.tfstate'' @ CHR 0x22 # '' already exisits''))"
  by (simp add: Load_def FetchByName_def stateFileName_def fmt_q_def)

theorem Load_refuses_existing_state_witness:
  "Load no_files demo_store =
     (no_files, True, Some (Errorf (CHR 0x22 # ''terraform.tfstate'' @ CHR 0x22 # '' already exisits''))) \<and>
   Load no_files Map.empty = (no_files, False, None)"
proof -
  have present: "demo_store ''terraform.tfstate'' \<noteq> None"
    by (simp add: demo_store_def)
  have "snd (snd (Load no_files demo_store)) =
          Some (Errorf (CHR 0x22 # ''terraform.tfstate'' @ CHR 0x22 # '' already exisits''))"
    using present by (simp add: Load_def FetchByName_def stateFileName_def fmt_q_def)
  moreover have "fst (Load no_files demo_store) = no_files" "fst (snd (Load no_files demo_store))"
    using Load_refuses_existing_state [of no_files demo_store] present by simp_all
  moreover have "fst (Load no_files Map.empty) = no_files" "\<not> fst (snd (Load no_files Map.empty))"
    "snd (snd (Load no_files Map.empty)) = None"
    using Load_refuses_existing_state [of no_files Map.empty] by simp_all
  ultimately show ?thesis
    by (simp add: prod_eq_iff)
qed

text \<open>
  C8. Once the temporary directory is created, \<open>os.RemoveAll\<close> on that directory is the
  last thing every run does, whether it returns nil, returns an error or panics, and it
  is called once.
\<close>

theorem Generate_removes_tmpDir:
  assumes "ioutil_TempDir e (os_TempDir e) ''openshift-install-'' = Inr tmpDir"
  shows "last (trace (Generate e parents c)) = EvRemoveAll tmpDir \<and>
         filter is_remove (trace (Generate e parents c)) = [EvRemoveAll tmpDir]"
proof -
  let ?r = "in_tmpDir e (Parents_installConfig parents)
              (Parents_terraformVariables_Files parents) tmpDir c"
  have tr: "trace (Generate e parents c) =
              EvTempDir (os_TempDir e) ''openshift-install-'' # trace ?r @ [EvRemoveAll tmpDir]"
    using assms by (rule Generate_TempDir_ok(1))
  have "filter is_remove (trace ?r) = []"
    using in_tmpDir_no_remove [of e _ _ tmpDir c]
    by (simp add: list_ex_iff filter_empty_conv)
  with tr show ?thesis by simp
qed

theorem Generate_removes_tmpDir_witness:
  "ioutil_TempDir env_apply_fails (os_TempDir env_apply_fails) ''openshift-install-'' =
     Inr ''/tmp/openshift-install-1'' \<and>
   last (trace (Generate env_apply_fails demo_parents no_files)) =
     EvRemoveAll ''/tmp/openshift-install-1'' \<and>
   last (trace (Generate demo_env parents_no_files no_files)) =
     EvRemoveAll ''/tmp/openshift-install-1'' \<and>
   outcome (Generate demo_env parents_no_files no_files) = Panicked"
proof -
  have h1: "ioutil_TempDir env_apply_fails (os_TempDir env_apply_fails) ''openshift-install-'' =
              Inr ''/tmp/openshift-install-1''"
    by code_simp
  have h2: "ioutil_TempDir demo_env (os_TempDir demo_env) ''openshift-install-'' =
              Inr ''/tmp/openshift-install-1''"
    by code_simp
  have "outcome (Generate demo_env parents_no_files no_files) = Panicked"
    by code_simp
  with h1 Generate_removes_tmpDir [OF h1, of demo_parents no_files]
    Generate_removes_tmpDir [OF h2, of parents_no_files no_files]
  show ?thesis by simp
qed

text \<open>
  C9. \<open>Generate\<close> indexes element 0 of the variables asset's file list with no length
  check, as soon as the temporary directory exists: the run panics exactly when that
  list is empty (and the directory was created), so with at least one file there is no
  out-of-bounds access.
\<close>

theorem Generate_index_out_of_range:
  "(outcome (Generate e parents c) = Panicked) =
     (\<not> isl (ioutil_TempDir e (os_TempDir e) ''openshift-install-'') \<and>
      Parents_terraformVariables_Files parents = [])"
proof (cases "ioutil_TempDir e (os_TempDir e) ''openshift-install-''")
  case (Inl x)
  then show ?thesis
    by (simp add: Generate_TempDir_error)
next
  case (Inr tmpDir)
  have "(outcome (in_tmpDir e ic files tmpDir c) = Panicked) = (files = [])" for ic files
    by (simp add: in_tmpDir_def Let_def deferred_metadata_outcome
        split: list.split option.split sum.split)
  with Inr show ?thesis
    by (simp add: Generate_TempDir_ok(2))
qed

theorem Generate_index_out_of_range_witness:
  "outcome (Generate demo_env parents_no_files no_files) = Panicked \<and>
   outcome (Generate demo_env demo_parents no_files) \<noteq> Panicked"
proof -
  have "\<not> isl (ioutil_TempDir demo_env (os_TempDir demo_env) ''openshift-install-'')"
    by code_simp
  moreover have "Parents_terraformVariables_Files parents_no_files = []"
    "Parents_terraformVariables_Files demo_parents \<noteq> []"
    by (simp_all add: parents_no_files_def demo_parents_def)
  ultimately show ?thesis
    using Generate_index_out_of_range [of demo_env parents_no_files no_files]
      Generate_index_out_of_range [of demo_env demo_parents no_files]
    by simp
qed







text \<open>
  C10. A run that returns the \<open>no known platform\<close> error has already deferred the
  closure. The record it marshals has the cluster's name and no platform section, and
  (the encoder succeeding on it) \<open>metadata.json\<close> is appended to the file list, which is
  therefore not empty.
\<close>

theorem Generate_no_platform_metadata:
  assumes "outcome (Generate e parents c) = Returned (Some (Errorf ''no known platform''))"
    and "json_Marshal e (bare_metadata (Parents_installConfig parents)) = Inr d"
  shows "Files (cluster (Generate e parents c)) =
           Files c @ [\<lparr>Filename = ''metadata.json'', Data = d\<rparr>] \<and>
         Files (cluster (Generate e parents c)) \<noteq> [] \<and>
         EvMarshal (bare_metadata (Parents_installConfig parents)) \<in>
           set (trace (Generate e parents c)) \<and>
         Metadata_AWS (bare_metadata (Parents_installConfig parents)) = None \<and>
         Metadata_OpenStack (bare_metadata (Parents_installConfig parents)) = None \<and>
         Metadata_Libvirt (bare_metadata (Parents_installConfig parents)) = None \<and>
         ClusterName (bare_metadata (Parents_installConfig parents)) =
           ObjectMeta_Name (Parents_installConfig parents)"
proof -
  let ?ic = "Parents_installConfig parents"
  have "staging_ok e parents"
  proof (rule ccontr)
    assume "\<not> staging_ok e parents"
    then show False
      using assms(1)
      by (auto simp: staging_ok_def Generate_def in_tmpDir_def deferred_RemoveAll_def Let_def
          split: sum.splits list.splits option.splits)
  qed
  then obtain tmpDir f fs where st:
    "ioutil_TempDir e (os_TempDir e) ''openshift-install-'' = Inr tmpDir"
    "Parents_terraformVariables_Files parents = f # fs"
    "ioutil_WriteFile e (filepath_Join e tmpDir (Filename f)) (Data f) = None"
    "data_Unpack e tmpDir (Platform_Name e (Config_Platform ?ic)) = None"
    by (rule staging_okE)
  let ?b = "provision e ?ic tmpDir c (bare_metadata ?ic)"
  have "outcome (deferred_metadata e ?b) = Returned (Some (Errorf ''no known platform''))"
    using assms(1) by (simp add: Generate_staged(2) [OF st])
  then have "body_err ?b = Some (Errorf ''no known platform'')"
    by (simp add: deferred_metadata_outcome split: sum.splits if_splits)
  then have b: "?b = \<lparr>body_metadata = bare_metadata ?ic, body_cluster = c,
                      body_err = Some (Errorf ''no known platform''),
                      body_trace = [EvClassify False]\<rparr>"
    by (rule provision_Errorf)
  have files: "Files (cluster (Generate e parents c)) =
                 Files c @ [\<lparr>Filename = ''metadata.json'', Data = d\<rparr>]"
    using assms(2) deferred_metadata_appends [of e ?b d]
    by (simp add: Generate_staged(3) [OF st] b Files_def)
  have "EvMarshal (bare_metadata ?ic) \<in> set (trace (Generate e parents c))"
    using deferred_metadata_marshals [of ?b e] by (simp add: Generate_staged(1) [OF st] b)
  with files show ?thesis
    by (simp add: bare_metadata_def)
qed

theorem Generate_no_platform_metadata_witness:
  "outcome (Generate demo_env parents_no_platform no_files) =
     Returned (Some (Errorf ''no known platform'')) \<and>
   json_Marshal demo_env (bare_metadata (Parents_installConfig parents_no_platform)) =
     Inr ''name=demo'' \<and>
   Files (cluster (Generate demo_env parents_no_platform no_files)) =
     [\<lparr>Filename = ''metadata.json'', Data = ''name=demo''\<rparr>]"
proof -
  have h1: "outcome (Generate demo_env parents_no_platform no_files) =
              Returned (Some (Errorf ''no known platform''))"
    by code_simp
  have h2: "json_Marshal demo_env (bare_metadata (Parents_installConfig parents_no_platform)) =
              Inr ''name=demo''"
    by code_simp
  have "Files no_files = []"
    by (simp add: Files_def no_files_def)
  then show ?thesis
    using h1 h2 Generate_no_platform_metadata [OF h1 h2] by simp
qed

text \<open>
  C4. In a run in which \<open>terraform.Apply\<close> is called, the next call is
  \<open>ioutil.ReadFile\<close> on the path that \<open>Apply\<close> returned, whatever error \<open>Apply\<close>
  returned with it. A state file that is read is appended as \<open>terraform.tfstate\<close>. If
  \<open>Apply\<close> failed, \<open>Generate\<close> returns that error wrapped with \<open>failed to run terraform\<close>,
  also when the read fails, and the read error is then logged. If \<open>Apply\<close> succeeded
  and the read fails, the read error is what \<open>Generate\<close> returns.
\<close>

theorem Generate_state_read_back:
  assumes "EvApply d \<in> set (trace (Generate e parents c))"
  shows
    "(\<exists>pre post. trace (Generate e parents c) =
        pre @ [EvApply d, EvReadFile (fst (terraform_Apply e d))] @ post) \<and>
     (\<forall>data. ioutil_ReadFile e (fst (terraform_Apply e d)) = Inr data \<longrightarrow>
        \<lparr>Filename = ''terraform.tfstate'', Data = data\<rparr> \<in>
          set (Files (cluster (Generate e parents c)))) \<and>
     (\<forall>a. snd (terraform_Apply e d) = Some a \<longrightarrow>
        outcome (Generate e parents c) =
          Returned (Some (Wrap (External a) ''failed to run terraform''))) \<and>
     (\<forall>a x. snd (terraform_Apply e d) = Some a \<and>
        ioutil_ReadFile e (fst (terraform_Apply e d)) = Inl x \<longrightarrow>
          EvLogReadFailed x \<in> set (trace (Generate e parents c))) \<and>
     (\<forall>x. snd (terraform_Apply e d) = None \<and>
        ioutil_ReadFile e (fst (terraform_Apply e d)) = Inl x \<longrightarrow>
          outcome (Generate e parents c) = Returned (Some (External x)))"
proof -
  let ?ic = "Parents_installConfig parents"
  from assms obtain tmpDir f fs where st:
    "ioutil_TempDir e (os_TempDir e) ''openshift-install-'' = Inr tmpDir"
    "Parents_terraformVariables_Files parents = f # fs"
    "ioutil_WriteFile e (filepath_Join e tmpDir (Filename f)) (Data f) = None"
    "data_Unpack e tmpDir (Platform_Name e (Config_Platform ?ic)) = None"
    and ap: "EvApply d \<in> set (body_trace (provision e ?ic tmpDir c (bare_metadata ?ic)))"
    by (rule Generate_applied)
  let ?b = "provision e ?ic tmpDir c (bare_metadata ?ic)"
  let ?sf = "fst (terraform_Apply e d)"
  note tr = Generate_staged(1) [OF st, of c]
  note out = Generate_staged(2) [OF st, of c]
  note cl = Generate_staged(3) [OF st, of c]
  have "\<exists>pre post. trace (Generate e parents c) = pre @ [EvApply d, EvReadFile ?sf] @ post"
  proof -
    from provision_applied(1) [OF ap] obtain pre post where
      "body_trace ?b = pre @ [EvApply d, EvReadFile ?sf] @ post"
      by blast
    moreover obtain tl where "trace (deferred_metadata e ?b) = body_trace ?b @ tl"
      using deferred_metadata_prefix [of e ?b] by blast
    ultimately have "trace (Generate e parents c) =
        ([EvTempDir (os_TempDir e) ''openshift-install-'',
          EvWriteFile (filepath_Join e tmpDir (Filename f)) (Data f),
          EvUnpack tmpDir (Platform_Name e (Config_Platform ?ic))] @ pre) @
        [EvApply d, EvReadFile ?sf] @ (post @ tl @ [EvRemoveAll tmpDir])"
      by (simp add: tr)
    then show ?thesis by blast
  qed
  moreover have "\<lparr>Filename = ''terraform.tfstate'', Data = data\<rparr> \<in>
      set (Files (cluster (Generate e parents c)))"
    if "ioutil_ReadFile e ?sf = Inr data" for data
    using provision_applied(2) [OF ap that] deferred_metadata_keeps_files [of ?b e]
    by (auto simp: cl Files_def)
  moreover have "outcome (Generate e parents c) =
      Returned (Some (Wrap (External a) ''failed to run terraform''))"
    if "snd (terraform_Apply e d) = Some a" for a
    using provision_applied(3) [OF ap that] by (simp add: out deferred_metadata_keeps_error)
  moreover have "EvLogReadFailed x \<in> set (trace (Generate e parents c))"
    if "snd (terraform_Apply e d) = Some a" "ioutil_ReadFile e ?sf = Inl x" for a x
    using provision_applied(4) [OF ap that] deferred_metadata_keeps_trace [of ?b e]
    by (auto simp: tr)
  moreover have "outcome (Generate e parents c) = Returned (Some (External x))"
    if "snd (terraform_Apply e d) = None" "ioutil_ReadFile e ?sf = Inl x" for x
    using provision_applied(5) [OF ap that] by (simp add: out deferred_metadata_keeps_error)
  ultimately show ?thesis by blast
qed

theorem Generate_state_read_back_witness:
  "EvApply ''/tmp/openshift-install-1'' \<in> set (trace (Generate env_all_fail demo_parents no_files)) \<and>
   terraform_Apply env_all_fail ''/tmp/openshift-install-1'' =
     (''/tmp/openshift-install-1/terraform.tfstate'', Some ''exit status 1'') \<and>
   ioutil_ReadFile env_all_fail ''/tmp/openshift-install-1/terraform.tfstate'' = Inl ''no such file'' \<and>
   outcome (Generate env_all_fail demo_parents no_files) =
     Returned (Some (Wrap (External ''exit status 1'') ''failed to run terraform'')) \<and>
   EvLogReadFailed ''no such file'' \<in> set (trace (Generate env_all_fail demo_parents no_files)) \<and>
   EvApply ''/tmp/openshift-install-1'' \<in> set (trace (Generate env_read_fails demo_parents no_files)) \<and>
   outcome (Generate env_read_fails demo_parents no_files) =
     Returned (Some (External ''no such file'')) \<and>
   EvApply ''/tmp/openshift-install-1'' \<in> set (trace (Generate demo_env demo_parents no_files)) \<and>
   \<lparr>Filename = ''terraform.tfstate'', Data = ''state''\<rparr> \<in>
     set (Files (cluster (Generate demo_env demo_parents no_files)))"
proof -
  let ?d = "''/tmp/openshift-install-1''"
  have a1: "EvApply ?d \<in> set (trace (Generate env_all_fail demo_parents no_files))"
    and a2: "EvApply ?d \<in> set (trace (Generate env_read_fails demo_parents no_files))"
    and a3: "EvApply ?d \<in> set (trace (Generate demo_env demo_parents no_files))"
    by code_simp+
  have t1: "terraform_Apply env_all_fail ?d =
              (''/tmp/openshift-install-1/terraform.tfstate'', Some ''exit status 1'')"
    and r1: "ioutil_ReadFile env_all_fail ''/tmp/openshift-install-1/terraform.tfstate'' =
              Inl ''no such file''"
    and t2: "terraform_Apply env_read_fails ?d =
              (''/tmp/openshift-install-1/terraform.tfstate'', None)"
    and r2: "ioutil_ReadFile env_read_fails ''/tmp/openshift-install-1/terraform.tfstate'' =
              Inl ''no such file''"
    and t3: "terraform_Apply demo_env ?d = (''/tmp/openshift-install-1/terraform.tfstate'', None)"
    and r3: "ioutil_ReadFile demo_env ''/tmp/openshift-install-1/terraform.tfstate'' = Inr ''state''"
    by code_simp+
  show ?thesis
    using a1 a2 a3 t1 r1 t2 r2 t3 r3
      Generate_state_read_back [OF a1]
      Generate_state_read_back [OF a2]
      Generate_state_read_back [OF a3]
    by simp
qed

text \<open>
  C5. Take a run whose marshal of the metadata fails with \<open>m\<close>, and the same run with an
  encoder that succeeds: what the latter returns is what \<open>Generate\<close> would otherwise
  return. If that is nil, the run returns the marshal error wrapped with
  \<open>failed to Marshal ClusterMetadata\<close>; if it is an error, the run returns that error
  unchanged, and the wrapped marshal error is logged (and only then).
\<close>

theorem Generate_marshal_failure:
  assumes "EvMarshal md \<in> set (trace (Generate e parents c))"
    and "json_Marshal e md = Inl m"
  shows
    "outcome (Generate e parents c) =
       (if outcome (Generate (e\<lparr>json_Marshal := (\<lambda>_. Inr d)\<rparr>) parents c) = Returned None
        then Returned (Some (Wrap (External m) ''failed to Marshal ClusterMetadata''))
        else outcome (Generate (e\<lparr>json_Marshal := (\<lambda>_. Inr d)\<rparr>) parents c)) \<and>
     (EvLogError (Wrap (External m) ''failed to Marshal ClusterMetadata'') \<in>
        set (trace (Generate e parents c))) =
       (outcome (Generate (e\<lparr>json_Marshal := (\<lambda>_. Inr d)\<rparr>) parents c) \<noteq> Returned None)"
proof -
  let ?ic = "Parents_installConfig parents"
  let ?e' = "e\<lparr>json_Marshal := (\<lambda>_. Inr d)\<rparr>"
  have "list_ex is_marshal (trace (Generate e parents c))"
    unfolding list_ex_iff using assms(1) by (rule rev_bexI) simp
  then have ok: "staging_ok e parents"
    using Generate_not_staged(2) by blast
  then obtain tmpDir f fs where st:
    "ioutil_TempDir e (os_TempDir e) ''openshift-install-'' = Inr tmpDir"
    "Parents_terraformVariables_Files parents = f # fs"
    "ioutil_WriteFile e (filepath_Join e tmpDir (Filename f)) (Data f) = None"
    "data_Unpack e tmpDir (Platform_Name e (Config_Platform ?ic)) = None"
    by (rule staging_okE)
  then have st':
    "ioutil_TempDir ?e' (os_TempDir ?e') ''openshift-install-'' = Inr tmpDir"
    "Parents_terraformVariables_Files parents = f # fs"
    "ioutil_WriteFile ?e' (filepath_Join ?e' tmpDir (Filename f)) (Data f) = None"
    "data_Unpack ?e' tmpDir (Platform_Name ?e' (Config_Platform ?ic)) = None"
    by simp_all
  let ?b = "provision e ?ic tmpDir c (bare_metadata ?ic)"
  have otherwise: "outcome (Generate ?e' parents c) = Returned (body_err ?b)"
    by (simp add: Generate_staged(2) [OF st'] deferred_metadata_outcome)
  from assms(1) have "EvMarshal md \<in> set (trace (deferred_metadata e ?b))"
    by (simp add: Generate_staged(1) [OF st])
  then have "md = body_metadata ?b"
    using provision_no_marshal by (rule deferred_metadata_marshalled)
  with assms(2) have fails: "json_Marshal e (body_metadata ?b) = Inl m"
    by simp
  have "outcome (Generate e parents c) =
          (if body_err ?b = None
           then Returned (Some (Wrap (External m) ''failed to Marshal ClusterMetadata''))
           else Returned (body_err ?b))"
    using fails by (simp add: Generate_staged(2) [OF st] deferred_metadata_outcome)
  moreover have "(EvLogError (Wrap (External m) ''failed to Marshal ClusterMetadata'') \<in>
      set (trace (Generate e parents c))) = (body_err ?b \<noteq> None)"
    using deferred_metadata_logs [OF fails provision_no_LogError]
    by (simp add: Generate_staged(1) [OF st])
  ultimately show ?thesis
    by (simp add: otherwise)
qed

theorem Generate_marshal_failure_witness:
  "EvMarshal demo_metadata \<in> set (trace (Generate env_marshal_fails demo_parents no_files)) \<and>
   json_Marshal env_marshal_fails demo_metadata = Inl ''unsupported type'' \<and>
   outcome (Generate (env_marshal_fails\<lparr>json_Marshal := (\<lambda>_. Inr [])\<rparr>) demo_parents no_files) =
     Returned None \<and>
   outcome (Generate env_marshal_fails demo_parents no_files) =
     Returned (Some (Wrap (External ''unsupported type'') ''failed to Marshal ClusterMetadata'')) \<and>
   EvMarshal demo_metadata \<in> set (trace (Generate env_all_fail demo_parents no_files)) \<and>
   json_Marshal env_all_fail demo_metadata = Inl ''unsupported type'' \<and>
   outcome (Generate env_all_fail demo_parents no_files) =
     Returned (Some (Wrap (External ''exit status 1'') ''failed to run terraform'')) \<and>
   EvLogError (Wrap (External ''unsupported type'') ''failed to Marshal ClusterMetadata'') \<in>
     set (trace (Generate env_all_fail demo_parents no_files))"
proof -
  have a1: "EvMarshal demo_metadata \<in> set (trace (Generate env_marshal_fails demo_parents no_files))"
    and a2: "EvMarshal demo_metadata \<in> set (trace (Generate env_all_fail demo_parents no_files))"
    by code_simp+
  have m1: "json_Marshal env_marshal_fails demo_metadata = Inl ''unsupported type''"
    and m2: "json_Marshal env_all_fail demo_metadata = Inl ''unsupported type''"
    by code_simp+
  have o1: "outcome (Generate (env_marshal_fails\<lparr>json_Marshal := (\<lambda>_. Inr [])\<rparr>) demo_parents no_files) =
              Returned None"
    and o2: "outcome (Generate (env_all_fail\<lparr>json_Marshal := (\<lambda>_. Inr [])\<rparr>) demo_parents no_files) =
              Returned (Some (Wrap (External ''exit status 1'') ''failed to run terraform''))"
    by code_simp+
  show ?thesis
    using a1 a2 m1 m2 o1 o2
      Generate_marshal_failure [OF a1 m1, of "[]"]
      Generate_marshal_failure [OF a2 m2, of "[]"]
    by simp
qed

text \<open>
  C6. The install config selects AWS with region \<open>us-test-1\<close>, the cluster is named
  \<open>demo\<close>, and the run gets through the staging steps. Whatever happens afterwards
  (\<open>terraform.Apply\<close> failing included), the last file of the asset is
  \<open>metadata.json\<close> and its payload is what the JSON encoder returns for the record
  with cluster name \<open>demo\<close>, an AWS section with region \<open>us-test-1\<close> and the identifier
  map with \<open>tectonicClusterID\<close> mapped to the cluster ID, and no other platform
  section; a decoder that reads this record back from its encoding decodes the staged
  payload to it.
\<close>

theorem Generate_metadata_AWS:
  fixes unmarshal :: "bytes \<Rightarrow> ClusterMetadata option"
  assumes aws: "Platform_AWS (Config_Platform (Parents_installConfig parents)) = Some aws"
    and region: "AWS_Region aws = ''us-test-1''"
    and name: "ObjectMeta_Name (Parents_installConfig parents) = ''demo''"
    and staged: "staging_ok e parents"
    and encodes: "\<not> isl (json_Marshal e (aws_metadata (ClusterID (Parents_installConfig parents))))"
    and decodes: "\<forall>x. json_Marshal e (aws_metadata (ClusterID (Parents_installConfig parents))) = Inr x \<longrightarrow>
                   unmarshal x = Some (aws_metadata (ClusterID (Parents_installConfig parents)))"
  shows "Filename (last (Files (cluster (Generate e parents c)))) = ''metadata.json'' \<and>
         json_Marshal e
           \<lparr>ClusterName = ''demo'',
            Metadata_AWS = Some \<lparr>AWSMeta_Region = ''us-test-1'',
              AWSMeta_Identifier =
                [(''tectonicClusterID'', ClusterID (Parents_installConfig parents))]\<rparr>,
            Metadata_OpenStack = None, Metadata_Libvirt = None\<rparr> =
           Inr (Data (last (Files (cluster (Generate e parents c))))) \<and>
         unmarshal (Data (last (Files (cluster (Generate e parents c))))) =
           Some \<lparr>ClusterName = ''demo'',
             Metadata_AWS = Some \<lparr>AWSMeta_Region = ''us-test-1'',
               AWSMeta_Identifier =
                 [(''tectonicClusterID'', ClusterID (Parents_installConfig parents))]\<rparr>,
             Metadata_OpenStack = None, Metadata_Libvirt = None\<rparr>"
proof -
  let ?ic = "Parents_installConfig parents"
  from staged obtain tmpDir f fs where st:
    "ioutil_TempDir e (os_TempDir e) ''openshift-install-'' = Inr tmpDir"
    "Parents_terraformVariables_Files parents = f # fs"
    "ioutil_WriteFile e (filepath_Join e tmpDir (Filename f)) (Data f) = None"
    "data_Unpack e tmpDir (Platform_Name e (Config_Platform ?ic)) = None"
    by (rule staging_okE)
  let ?b = "provision e ?ic tmpDir c (bare_metadata ?ic)"
  have md: "body_metadata ?b = aws_metadata (ClusterID ?ic)"
    using region name
    by (simp add: provision_metadata_AWS [OF aws] bare_metadata_def aws_metadata_def)
  from encodes obtain d where d: "json_Marshal e (aws_metadata (ClusterID ?ic)) = Inr d"
    by (cases "json_Marshal e (aws_metadata (ClusterID ?ic))") simp_all
  then have "last (FileList (cluster (deferred_metadata e ?b))) =
               \<lparr>Filename = ''metadata.json'', Data = d\<rparr>"
    using md by (simp add: deferred_metadata_last)
  then have last: "last (Files (cluster (Generate e parents c))) =
                     \<lparr>Filename = ''metadata.json'', Data = d\<rparr>"
    by (simp add: Generate_staged(3) [OF st] Files_def)
  from decodes d have "unmarshal d = Some (aws_metadata (ClusterID ?ic))"
    by blast
  with last d show ?thesis
    by (simp add: aws_metadata_def)
qed

theorem Generate_metadata_AWS_witness:
  "staging_ok env_apply_fails demo_parents \<and>
   snd (terraform_Apply env_apply_fails ''/tmp/openshift-install-1'') = Some ''exit status 1'' \<and>
   outcome (Generate env_apply_fails demo_parents no_files) =
     Returned (Some (Wrap (External ''exit status 1'') ''failed to run terraform'')) \<and>
   json_Marshal env_apply_fails (aws_metadata ''c1d'') =
     Inr ''name=demo;aws=us-test-1;tectonicClusterID=c1d'' \<and>
   last (Files (cluster (Generate env_apply_fails demo_parents no_files))) =
     \<lparr>Filename = ''metadata.json'', Data = ''name=demo;aws=us-test-1;tectonicClusterID=c1d''\<rparr> \<and>
   demo_Unmarshal (Data (last (Files (cluster (Generate env_apply_fails demo_parents no_files))))) =
     Some demo_metadata"
proof -
  have aws: "Platform_AWS (Config_Platform (Parents_installConfig demo_parents)) =
               Some \<lparr>AWS_Region = ''us-test-1''\<rparr>"
    and name: "ObjectMeta_Name (Parents_installConfig demo_parents) = ''demo''"
    and cid: "ClusterID (Parents_installConfig demo_parents) = ''c1d''"
    by (simp_all add: demo_parents_def demo_config_def)
  have region: "AWS_Region \<lparr>AWS_Region = ''us-test-1''\<rparr> = ''us-test-1''"
    by simp
  have staged: "staging_ok env_apply_fails demo_parents"
    by code_simp
  have enc: "json_Marshal env_apply_fails (aws_metadata ''c1d'') =
               Inr ''name=demo;aws=us-test-1;tectonicClusterID=c1d''"
    by code_simp
  have dec: "demo_Unmarshal ''name=demo;aws=us-test-1;tectonicClusterID=c1d'' =
               Some (aws_metadata ''c1d'')"
    by code_simp
  have encodes: "\<not> isl (json_Marshal env_apply_fails
      (aws_metadata (ClusterID (Parents_installConfig demo_parents))))"
    by (simp add: cid enc)
  have decodes: "\<forall>x. json_Marshal env_apply_fails
      (aws_metadata (ClusterID (Parents_installConfig demo_parents))) = Inr x \<longrightarrow>
        demo_Unmarshal x = Some (aws_metadata (ClusterID (Parents_installConfig demo_parents)))"
    by (simp add: cid enc dec)
  have fails: "snd (terraform_Apply env_apply_fails ''/tmp/openshift-install-1'') =
                 Some ''exit status 1''"
    "outcome (Generate env_apply_fails demo_parents no_files) =
       Returned (Some (Wrap (External ''exit status 1'') ''failed to run terraform''))"
    by code_simp+
  have staged_file: "last (Files (cluster (Generate env_apply_fails demo_parents no_files))) =
     \<lparr>Filename = ''metadata.json'', Data = ''name=demo;aws=us-test-1;tectonicClusterID=c1d''\<rparr>"
    by code_simp
  show ?thesis
    using staged fails enc staged_file
      Generate_metadata_AWS [OF aws region name staged encodes decodes, of no_files]
    by (simp add: cid demo_metadata_def aws_metadata_def)
qed

text \<open>
  C7 (as the code has it). The platform's data is unpacked into the temporary directory
  before the \<open>switch\<close> classifies the platform: every run that reaches the \<open>switch\<close> has
  made exactly one \<open>data.Unpack\<close> call before it, with the name that \<open>Platform.Name()\<close>
  returned. What comes after the classification is the unpacking of \<open>config.tf\<close> and
  the calls of terraform: no \<open>Init\<close> or \<open>Apply\<close> precedes the \<open>switch\<close>, and the only
  \<open>data.Unpack\<close> after it is that of \<open>config.tf\<close>.
\<close>

theorem Generate_unpack_then_classify:
  "all_preceded is_unpack is_classify (trace (Generate e parents c)) \<and>
   all_preceded is_classify is_tool (trace (Generate e parents c)) \<and>
   (list_ex is_classify (trace (Generate e parents c)) \<longrightarrow>
      (\<exists>tmpDir. ioutil_TempDir e (os_TempDir e) ''openshift-install-'' = Inr tmpDir \<and>
         filter is_unpack (takeWhile (\<lambda>x. \<not> is_classify x) (trace (Generate e parents c))) =
           [EvUnpack tmpDir (Platform_Name e (Config_Platform (Parents_installConfig parents)))] \<and>
         (\<forall>x \<in> set (filter is_unpack
                      (dropWhile (\<lambda>x. \<not> is_classify x) (trace (Generate e parents c)))).
            x = EvUnpack (filepath_Join e tmpDir ''config.tf'') ''config.tf'')))"
proof (cases "staging_ok e parents")
  case False
  then have none: "\<not> list_ex is_classify (trace (Generate e parents c))"
    "\<not> list_ex is_tool (trace (Generate e parents c))"
    by (simp_all add: Generate_not_staged)
  then show ?thesis
    by (simp add: all_preceded_absent)
next
  case True
  let ?ic = "Parents_installConfig parents"
  from True obtain tmpDir f fs where st:
    "ioutil_TempDir e (os_TempDir e) ''openshift-install-'' = Inr tmpDir"
    "Parents_terraformVariables_Files parents = f # fs"
    "ioutil_WriteFile e (filepath_Join e tmpDir (Filename f)) (Data f) = None"
    "data_Unpack e tmpDir (Platform_Name e (Config_Platform ?ic)) = None"
    by (rule staging_okE)
  let ?b = "provision e ?ic tmpDir c (bare_metadata ?ic)"
  obtain k rest where body: "body_trace ?b = EvClassify k # rest"
    and rest: "\<forall>x \<in> set rest. is_unpack x \<longrightarrow>
                 x = EvUnpack (filepath_Join e tmpDir ''config.tf'') ''config.tf''"
    using provision_trace [of e ?ic tmpDir c "bare_metadata ?ic"] by blast
  obtain tl where tl: "trace (deferred_metadata e ?b) = body_trace ?b @ tl"
    "\<not> list_ex is_unpack tl"
    using deferred_metadata_prefix [of e ?b] by blast
  have tr: "trace (Generate e parents c) =
      [EvTempDir (os_TempDir e) ''openshift-install-'',
       EvWriteFile (filepath_Join e tmpDir (Filename f)) (Data f),
       EvUnpack tmpDir (Platform_Name e (Config_Platform ?ic)),
       EvClassify k] @ rest @ tl @ [EvRemoveAll tmpDir]"
    by (simp add: Generate_staged(1) [OF st] tl(1) body)
  have "\<forall>x \<in> set (filter is_unpack
            (dropWhile (\<lambda>x. \<not> is_classify x) (trace (Generate e parents c)))).
          x = EvUnpack (filepath_Join e tmpDir ''config.tf'') ''config.tf''"
    using rest tl(2) by (auto simp: tr list_ex_iff)
  moreover have "filter is_unpack
      (takeWhile (\<lambda>x. \<not> is_classify x) (trace (Generate e parents c))) =
        [EvUnpack tmpDir (Platform_Name e (Config_Platform ?ic))]"
    by (simp add: tr)
  ultimately show ?thesis
    using st(1) by (simp add: tr)
qed

theorem Generate_unpack_then_classify_witness:
  "list_ex is_classify (trace (Generate demo_env demo_parents no_files)) \<and>
   ioutil_TempDir demo_env (os_TempDir demo_env) ''openshift-install-'' =
     Inr ''/tmp/openshift-install-1'' \<and>
   filter is_unpack (takeWhile (\<lambda>x. \<not> is_classify x)
       (trace (Generate demo_env demo_parents no_files))) =
     [EvUnpack ''/tmp/openshift-install-1'' ''aws''] \<and>
   filter is_unpack (dropWhile (\<lambda>x. \<not> is_classify x)
       (trace (Generate demo_env demo_parents no_files))) =
     [EvUnpack ''/tmp/openshift-install-1/config.tf'' ''config.tf'']"
proof -
  have h: "list_ex is_classify (trace (Generate demo_env demo_parents no_files))"
    by code_simp
  have t: "ioutil_TempDir demo_env (os_TempDir demo_env) ''openshift-install-'' =
             Inr ''/tmp/openshift-install-1''"
    by code_simp
  have n: "Platform_Name demo_env (Config_Platform (Parents_installConfig demo_parents)) = ''aws''"
    by code_simp
  have d: "filter is_unpack (dropWhile (\<lambda>x. \<not> is_classify x)
             (trace (Generate demo_env demo_parents no_files))) =
           [EvUnpack ''/tmp/openshift-install-1/config.tf'' ''config.tf'']"
    by code_simp
  show ?thesis
    using h t n d Generate_unpack_then_classify [of demo_env demo_parents no_files]
    by auto
qed

text \<open>
  C7 as stated fails: in the run in which every call succeeds, the platform's data is
  unpacked as the third event, and the \<open>switch\<close> comes after it.
\<close>

theorem Generate_unpack_then_classify_counterexample:
  "\<not> all_preceded is_classify is_unpack (trace (Generate demo_env demo_parents no_files)) \<and>
   take 4 (trace (Generate demo_env demo_parents no_files)) =
     [EvTempDir ''/tmp'' ''openshift-install-'',
      EvWriteFile ''/tmp/openshift-install-1/terraform.tfvars'' ''{}'',
      EvUnpack ''/tmp/openshift-install-1'' ''aws'',
      EvClassify True]"
  by code_simp

end
